theory Spec2Isabelle
  imports Complex_Main "HOL-Library.Char_ord" "HOL-Library.List_Lexorder" "HOL-Library.Multiset"
begin

section \<open>Circuit breaker (app/domain/router.py)\<close>

text \<open>
  The breaker is a mutable dataclass; every method is modelled as a function from the
  breaker to the updated breaker. \<open>time.time()\<close> is read by \<open>on_failure\<close> and
  \<open>allow_request\<close>; the value read is the explicit argument \<open>now\<close>.
\<close>

datatype CircuitState = CLOSED | OPEN | HALF_OPEN

record CircuitBreaker =
  cb_provider :: string
  failure_threshold :: int
  reset_timeout_s :: int
  state :: CircuitState
  failure_count :: int
  opened_at_ts :: "real option"

text \<open>\<open>CircuitBreaker(provider=p)\<close> with the dataclass defaults.\<close>

definition new_breaker :: "string \<Rightarrow> CircuitBreaker" where
  "new_breaker p =
     \<lparr>cb_provider = p, failure_threshold = 5, reset_timeout_s = 60,
      state = CLOSED, failure_count = 0, opened_at_ts = None\<rparr>"

definition on_success :: "CircuitBreaker \<Rightarrow> CircuitBreaker" where
  "on_success cb =
     (if state cb \<noteq> CLOSED
      then cb\<lparr>state := CLOSED, failure_count := 0, opened_at_ts := None\<rparr>
      else cb)"

definition on_failure :: "real \<Rightarrow> CircuitBreaker \<Rightarrow> CircuitBreaker" where
  "on_failure now cb =
     (let cb1 = cb\<lparr>failure_count := failure_count cb + 1\<rparr>
      in if failure_count cb1 \<ge> failure_threshold cb1
         then cb1\<lparr>state := OPEN, opened_at_ts := Some now\<rparr>
         else cb1)"

text \<open>
  \<open>allow_request\<close> returns the answer and the breaker (the open state may become
  half-open). The \<open>assert self.opened_at_ts is not None\<close> is the \<open>None\<close> result.
\<close>

definition allow_request :: "real \<Rightarrow> CircuitBreaker \<Rightarrow> (bool \<times> CircuitBreaker) option" where
  "allow_request now cb =
     (case state cb of
        CLOSED \<Rightarrow> Some (True, cb)
      | OPEN \<Rightarrow>
          (case opened_at_ts cb of
             None \<Rightarrow> None
           | Some t \<Rightarrow>
               if now - t \<ge> real_of_int (reset_timeout_s cb)
               then Some (True, cb\<lparr>state := HALF_OPEN\<rparr>)
               else Some (False, cb))
      | HALF_OPEN \<Rightarrow> Some (True, cb))"

section \<open>Model catalogue (app/domain/models.py)\<close>

datatype ModelCapability = STREAMING | TOOLS | VISION | JSON_MODE | LONG_CONTEXT

text \<open>
  \<open>ModelConfig\<close> with the fields the registry and the router read. The two cost rates
  (floats) and the two timestamps are carried by the dataclass but read by none of the
  functions below, and are left out.
\<close>

record ModelConfig =
  id :: string
  provider :: string
  model_name :: string
  display_name :: string
  context_window :: int
  max_output_tokens :: int
  capabilities :: "ModelCapability list"
  is_active :: bool
  priority :: int

text \<open>
  Python's \<open>sorted\<close> is a stable sort; with \<open>reverse=True\<close> it sorts descending and
  still keeps elements with equal keys in their original order. Both are insertion
  sorts by key here, the descending one by the negated priority.
\<close>

definition sorted_by_priority :: "ModelConfig list \<Rightarrow> ModelConfig list" where
  "sorted_by_priority ms = sort_key priority ms"

definition sorted_by_priority_reverse :: "ModelConfig list \<Rightarrow> ModelConfig list" where
  "sorted_by_priority_reverse ms = sort_key (\<lambda>m. - priority m) ms"

section \<open>In-memory registry (app/application/services/memory\_registry\_service.py)\<close>

text \<open>
  \<open>self._models\<close> is a dict; Python dicts keep insertion order, so the snapshot is an
  association list and \<open>values()\<close> lists the values in that order. \<open>refresh\<close> stores
  each config under its \<open>model_name\<close> and under its \<open>display_name\<close>.
\<close>

type_synonym memory_registry = "(string \<times> ModelConfig) list"

definition mem_get_model :: "memory_registry \<Rightarrow> string \<Rightarrow> ModelConfig option" where
  "mem_get_model snapshot ident = map_of snapshot ident"

definition mem_list_models ::
  "memory_registry \<Rightarrow> string option \<Rightarrow> ModelCapability option \<Rightarrow> bool \<Rightarrow> ModelConfig list" where
  "mem_list_models snapshot prov cap active_only =
     (let results = map snd snapshot;
          results = (if active_only then filter is_active results else results);
          results = (case prov of
                       None \<Rightarrow> results
                     | Some p \<Rightarrow> if p \<noteq> [] then filter (\<lambda>m. provider m = p) results
                                else results);
          results = (case cap of
                       None \<Rightarrow> results
                     | Some c \<Rightarrow> filter (\<lambda>m. c \<in> set (capabilities m)) results)
      in sorted_by_priority_reverse results)"

definition mem_get_fallback_chain :: "memory_registry \<Rightarrow> string \<Rightarrow> ModelConfig list" where
  "mem_get_fallback_chain snapshot failed_model =
     (case mem_get_model snapshot failed_model of
        None \<Rightarrow> []
      | Some base_model \<Rightarrow>
          filter (\<lambda>m. provider m = provider base_model \<and> model_name m \<noteq> model_name base_model)
            (mem_list_models snapshot None None True))"

text \<open>
  One pass of the loop of \<open>refresh\<close> over the rows of the catalogue query: the snapshot
  dict gets the config under both names (a later row overwrites an equal key in place).
\<close>

definition dict_set :: "('k \<times> 'v) list \<Rightarrow> 'k \<Rightarrow> 'v \<Rightarrow> ('k \<times> 'v) list" where
  "dict_set d k v = (if k \<in> fst ` set d then map (\<lambda>(k', v'). if k' = k then (k', v) else (k', v')) d
                     else d @ [(k, v)])"

definition mem_refresh :: "ModelConfig list \<Rightarrow> memory_registry" where
  "mem_refresh rows =
     foldl (\<lambda>d c. dict_set (dict_set d (model_name c) c) (display_name c) c) [] rows"

section \<open>Shared KV registry (app/application/services/model\_registry\_service.py)\<close>

text \<open>
  The three KV structures the registry reads: the hash \<open>lkg:models:active\<close> (canonical
  name to packed config, in the order \<open>hgetall\<close> returns it), the hash
  \<open>lkg:models:aliases\<close> and the sets \<open>lkg:models:capability:{cap}\<close> (in the order
  \<open>smembers\<close> returns the members). The msgpack codec is a library; a packed value is
  the config it unpacks to.
\<close>

record redis_registry =
  active :: "(string \<times> ModelConfig) list"
  aliases :: "(string \<times> string) list"
  capability_members :: "ModelCapability \<Rightarrow> string list"

definition redis_get_model :: "redis_registry \<Rightarrow> string \<Rightarrow> ModelConfig option" where
  "redis_get_model r model_identifier =
     (let model_key =
            (if CHR '':'' \<notin> set model_identifier
             then (case map_of (aliases r) model_identifier of
                     Some actual_key \<Rightarrow> if actual_key \<noteq> [] then actual_key else model_identifier
                   | None \<Rightarrow> model_identifier)
             else model_identifier)
      in map_of (active r) model_key)"

text \<open>
  \<open>hmget\<close> answers \<open>None\<close> for a field the hash does not have; the loop skips it
  (\<open>if raw:\<close>). \<open>active_only\<close> is accepted and never read.
\<close>

definition redis_list_models ::
  "redis_registry \<Rightarrow> string option \<Rightarrow> ModelCapability option \<Rightarrow> bool \<Rightarrow> ModelConfig list" where
  "redis_list_models r prov cap active_only =
     (case cap of
        Some c \<Rightarrow>
          (let keys = capability_members r c
           in if keys = [] then []
              else
                (let raw_list = map (map_of (active r)) keys;
                     found = filter (\<lambda>m. \<not> (case prov of None \<Rightarrow> False
                                                  | Some p \<Rightarrow> p \<noteq> [] \<and> provider m \<noteq> p))
                                (List.map_filter (\<lambda>raw. raw) raw_list)
                 in sorted_by_priority found))
      | None \<Rightarrow>
          (let raw_list = map (\<lambda>kv. Some (snd kv)) (active r);
               found = filter (\<lambda>m. \<not> (case prov of None \<Rightarrow> False
                                            | Some p \<Rightarrow> p \<noteq> [] \<and> provider m \<noteq> p))
                          (List.map_filter (\<lambda>raw. raw) raw_list)
           in sorted_by_priority found))"

definition redis_get_fallback_chain :: "redis_registry \<Rightarrow> string \<Rightarrow> ModelConfig list" where
  "redis_get_fallback_chain r failed_model =
     filter (\<lambda>m. provider m @ '':'' @ model_name m \<noteq> failed_model)
       (redis_list_models r None None True)"

text \<open>The registry protocol the router is written against.\<close>

record registry =
  get_model :: "string \<Rightarrow> ModelConfig option"
  get_fallback_chain :: "string \<Rightarrow> ModelConfig list"

definition memory_registry_of :: "memory_registry \<Rightarrow> registry" where
  "memory_registry_of snapshot =
     \<lparr>get_model = mem_get_model snapshot, get_fallback_chain = mem_get_fallback_chain snapshot\<rparr>"

definition redis_registry_of :: "redis_registry \<Rightarrow> registry" where
  "redis_registry_of r =
     \<lparr>get_model = redis_get_model r, get_fallback_chain = redis_get_fallback_chain r\<rparr>"

text \<open>Catalogue rows used by the examples below.\<close>

definition gpt_4o :: ModelConfig where
  "gpt_4o = \<lparr>id = ''1'', provider = ''openai'', model_name = ''gpt-4o'', display_name = ''GPT-4o'',
     context_window = 128000, max_output_tokens = 4096, capabilities = [STREAMING, TOOLS],
     is_active = True, priority = 10\<rparr>"

definition gpt_4o_mini :: ModelConfig where
  "gpt_4o_mini = \<lparr>id = ''2'', provider = ''openai'', model_name = ''gpt-4o-mini'',
     display_name = ''GPT-4o mini'', context_window = 128000, max_output_tokens = 4096,
     capabilities = [STREAMING], is_active = True, priority = 5\<rparr>"

definition claude_3 :: ModelConfig where
  "claude_3 = \<lparr>id = ''3'', provider = ''anthropic'', model_name = ''claude-3'',
     display_name = ''Claude 3'', context_window = 200000, max_output_tokens = 4096,
     capabilities = [STREAMING], is_active = True, priority = 7\<rparr>"

definition example_redis_registry :: redis_registry where
  "example_redis_registry =
     \<lparr>active = [(''openai:gpt-4o'', gpt_4o), (''anthropic:claude-3'', claude_3),
                (''openai:gpt-4o-mini'', gpt_4o_mini)],
      aliases = [(''gpt-4o'', ''openai:gpt-4o''), (''claude-3'', ''anthropic:claude-3''),
                 (''gpt-4o-mini'', ''openai:gpt-4o-mini'')],
      capability_members = (\<lambda>c. if c = STREAMING
         then [''openai:gpt-4o'', ''anthropic:claude-3'', ''openai:gpt-4o-mini'']
         else if c = TOOLS then [''openai:gpt-4o''] else [])\<rparr>"

text \<open>
  The order the specification gives for \<open>list\<close>: priority descending, ties by provider
  ascending (strings compared lexicographically, as Python compares them).
\<close>

definition spec_list_order :: "ModelConfig list \<Rightarrow> bool" where
  "spec_list_order ms =
     sorted_wrt (\<lambda>a b. priority a > priority b \<or>
                        (priority a = priority b \<and> provider a \<le> provider b)) ms"

text \<open>The filter of \<open>list\<close> as the specification words it.\<close>

definition spec_matches :: "string option \<Rightarrow> ModelCapability option \<Rightarrow> bool \<Rightarrow> ModelConfig \<Rightarrow> bool" where
  "spec_matches prov cap active_only m =
     ((if active_only then is_active m else True) \<and>
      (case prov of None \<Rightarrow> True | Some p \<Rightarrow> if p = [] then True else provider m = p) \<and>
      (case cap of None \<Rightarrow> True | Some c \<Rightarrow> c \<in> set (capabilities m)))"

section \<open>Adapter contract (app/domain/adapters.py)\<close>

text \<open>
  The request and the result of a completion. Of the request the router reads and
  rewrites \<open>model\<close> only; the messages and the request id are carried along, the
  sampling parameters and tool fields (passed through untouched) are left out.
\<close>

record LLMCompletionRequest =
  model :: string
  messages :: "(string \<times> string) list"
  request_id :: string

record LLMCompletionResult =
  res_provider :: string
  res_model :: string
  content :: string
  prompt_tokens :: int
  completion_tokens :: int
  finish_reason :: "string option"

record ProviderError =
  pe_provider :: string
  pe_model :: string
  retryable :: bool
  fallback :: bool
  message :: string
  status_code :: "int option"

text \<open>What a \<open>try\<close> block of the router can catch: a \<open>ProviderError\<close> or any other exception.\<close>

datatype exn = ProviderErr ProviderError | OtherException string

datatype adapter_outcome = Returns LLMCompletionResult | Raises exn

section \<open>Adapter factory (app/application/llm/factory.py)\<close>

definition lower_char :: "char \<Rightarrow> char" where
  "lower_char c =
     (case map_of (zip ''ABCDEFGHIJKLMNOPQRSTUVWXYZ'' ''abcdefghijklmnopqrstuvwxyz'') c of
        Some d \<Rightarrow> d
      | None \<Rightarrow> c)"

text \<open>
  \<open>get_adapter\<close> lower-cases the provider and knows three of them; any other provider
  raises \<open>ValueError\<close> (\<open>None\<close>). The adapter is named by its provider.
\<close>

definition get_adapter :: "string \<Rightarrow> string option" where
  "get_adapter prov =
     (let p = map lower_char prov
      in if p = ''openai'' \<or> p = ''anthropic'' \<or> p = ''gemini'' then Some p else None)"

section \<open>Router (app/application/services/model\_router.py)\<close>

record RouterCacheOptions =
  cache_enabled :: bool
  ttl_seconds :: int

record RouterFallbackConfig =
  fallback_enabled :: bool
  models :: "string list"

record RouterRequestMetadata =
  user_id :: string
  org_id :: string
  api_key_id :: string
  md_request_id :: string

record RouterDecision =
  d_provider :: string
  provider_model :: string
  logical_model :: string
  from_cache :: bool
  fallback_chain :: "string list"

text \<open>
  The JSON object kept under \<open>lkg:resp:{digest}\<close>. The response cache maps a key to the
  object it decodes to; a value that does not decode is a miss in the code and is
  an absent key here.
\<close>

record cached_payload =
  cp_provider :: string
  cp_model :: string
  cp_content :: string
  cp_prompt_tokens :: int
  cp_completion_tokens :: int
  cp_finish_reason :: "string option"

text \<open>
  What the world outside the router does during one call of \<open>chat_completion\<close>:
  \<^item> \<open>adapter_result k a req\<close>: what the \<open>k\<close>-th call of an adapter's \<open>acompletion\<close>
    (counted from 0 within the state's call log) returns or raises;
  \<^item> \<open>cache_set_raises k\<close>: whether the KV \<open>set\<close> after the \<open>k\<close>-th adapter call raises;
  \<^item> \<open>cache_get_raises\<close>: whether the KV \<open>get\<close> of the cache probe raises;
  \<^item> \<open>time_at k\<close>: the wall clock at the \<open>k\<close>-th breaker call (\<open>allow_request\<close> or
    \<open>on_failure\<close>) of the router;
  \<^item> \<open>digest\<close>: the SHA-256 of the canonical JSON of the request, in hex.
\<close>

record router_env =
  adapter_result :: "nat \<Rightarrow> string \<Rightarrow> LLMCompletionRequest \<Rightarrow> adapter_outcome"
  cache_set_raises :: "nat \<Rightarrow> bool"
  cache_get_raises :: bool
  time_at :: "nat \<Rightarrow> real"
  digest :: "LLMCompletionRequest \<Rightarrow> RouterRequestMetadata \<Rightarrow> string"

text \<open>
  The router's own state and what it changes outside: the breakers by provider, the
  response cache, the log of adapter calls (adapter and request, in order) and the number
  of breaker calls so far. Waiting for a permit of the provider's semaphore is not
  modelled (one request at a time); metrics and logging are left out.
\<close>

record router_state =
  circuit_breakers :: "string \<rightharpoonup> CircuitBreaker"
  response_cache :: "string \<rightharpoonup> cached_payload"
  adapter_calls :: "(string \<times> LLMCompletionRequest) list"
  breaker_calls :: nat

datatype router_error =
    ModelNotFound string
  | UnknownProvider string
  | BreakerAssertion
  | CacheUnavailable
  | AllProvidersFailed "exn option"

type_synonym router_result =
  "router_error + (RouterDecision \<times> LLMCompletionResult option \<times> cached_payload option)"

definition get_circuit_breaker :: "string \<Rightarrow> router_state \<Rightarrow> CircuitBreaker \<times> router_state" where
  "get_circuit_breaker prov st =
     (case circuit_breakers st prov of
        Some cb \<Rightarrow> (cb, st)
      | None \<Rightarrow> (new_breaker prov,
                 st\<lparr>circuit_breakers := (circuit_breakers st)(prov \<mapsto> new_breaker prov)\<rparr>))"

definition build_cache_key :: "router_env \<Rightarrow> LLMCompletionRequest \<Rightarrow> RouterRequestMetadata \<Rightarrow> string" where
  "build_cache_key env llm_request metadata = ''lkg:resp:'' @ digest env llm_request metadata"

text \<open>Lines 105 to 112: the candidate chain.\<close>

definition models_chain :: "registry \<Rightarrow> ModelConfig \<Rightarrow> RouterFallbackConfig \<Rightarrow> ModelConfig list" where
  "models_chain reg cfg fb =
     [cfg] @
     (if fallback_enabled fb
      then (let fallbacks = get_fallback_chain reg (provider cfg @ '':'' @ model_name cfg)
            in if models fb \<noteq> []
               then filter (\<lambda>m. model_name m \<in> set (models fb)) fallbacks
               else fallbacks)
      else [])"

text \<open>
  The breaker of the provider after \<open>cb.on_failure()\<close>; the clock is read for it.
\<close>

definition mark_failure :: "router_env \<Rightarrow> string \<Rightarrow> router_state \<Rightarrow> router_state" where
  "mark_failure env prov st =
     (case circuit_breakers st prov of
        None \<Rightarrow> st
      | Some cb \<Rightarrow>
          st\<lparr>circuit_breakers := (circuit_breakers st)(prov \<mapsto> on_failure (time_at env (breaker_calls st)) cb),
             breaker_calls := breaker_calls st + 1\<rparr>)"

definition mark_success :: "string \<Rightarrow> router_state \<Rightarrow> router_state" where
  "mark_success prov st =
     (case circuit_breakers st prov of
        None \<Rightarrow> st
      | Some cb \<Rightarrow> st\<lparr>circuit_breakers := (circuit_breakers st)(prov \<mapsto> on_success cb)\<rparr>)"

text \<open>
  One pass of the loop over the chain (lines 117 to 192). The pass returns from
  \<open>chat_completion\<close>, raises out of it, leaves the loop (\<open>break\<close>) or goes on to the
  next candidate; the last two carry \<open>last_error\<close>.
\<close>

datatype pass_result =
    Return "RouterDecision \<times> LLMCompletionResult option \<times> cached_payload option"
  | Raise router_error
  | Break "exn option"
  | Continue "exn option"

definition try_candidate ::
  "router_env \<Rightarrow> LLMCompletionRequest \<Rightarrow> RouterCacheOptions \<Rightarrow> bool \<Rightarrow> string option \<Rightarrow>
   ModelConfig list \<Rightarrow> ModelConfig \<Rightarrow> exn option \<Rightarrow> router_state \<Rightarrow> pass_result \<times> router_state" where
  "try_candidate env llm_request cache streaming cache_key chain model_cfg last_error st =
     (case get_adapter (provider model_cfg) of
        None \<Rightarrow> (Raise (UnknownProvider (provider model_cfg)), st)
      | Some adapter \<Rightarrow>
          (let (cb, st1) = get_circuit_breaker (provider model_cfg) st;
               now = time_at env (breaker_calls st1);
               st2 = st1\<lparr>breaker_calls := breaker_calls st1 + 1\<rparr>
           in case allow_request now cb of
                None \<Rightarrow> (Raise BreakerAssertion, st2)
              | Some (allowed, cb') \<Rightarrow>
                  (let st3 = st2\<lparr>circuit_breakers := (circuit_breakers st2)(provider model_cfg \<mapsto> cb')\<rparr>;
                       decision = \<lparr>d_provider = provider model_cfg,
                                   provider_model = model_name model_cfg,
                                   logical_model = model llm_request,
                                   from_cache = False,
                                   fallback_chain = map model_name (tl chain)\<rparr>
                   in if \<not> allowed then (Continue last_error, st3)
                      else if streaming then (Return (decision, None, None), st3)
                      else
                        (let adjusted_request = llm_request\<lparr>model := model_name model_cfg\<rparr>;
                             k = length (adapter_calls st3);
                             st4 = st3\<lparr>adapter_calls := adapter_calls st3 @ [(adapter, adjusted_request)]\<rparr>
                         in case adapter_result env k adapter adjusted_request of
                              Returns result \<Rightarrow>
                                (let st5 = mark_success (provider model_cfg) st4
                                 in case cache_key of
                                      None \<Rightarrow> (Return (decision, Some result, None), st5)
                                    | Some key \<Rightarrow>
                                        if cache_set_raises env k
                                        then (Continue (Some (OtherException ''cache set'')),
                                              mark_failure env (provider model_cfg) st5)
                                        else (Return (decision, Some result, None),
                                              st5\<lparr>response_cache := (response_cache st5)(key \<mapsto>
                                                \<lparr>cp_provider = res_provider result,
                                                 cp_model = res_model result,
                                                 cp_content = content result,
                                                 cp_prompt_tokens = prompt_tokens result,
                                                 cp_completion_tokens = completion_tokens result,
                                                 cp_finish_reason = finish_reason result\<rparr>)\<rparr>))
                            | Raises (ProviderErr exc) \<Rightarrow>
                                if \<not> fallback exc
                                then (Break (Some (ProviderErr exc)), mark_failure env (provider model_cfg) st4)
                                else (Continue (Some (ProviderErr exc)), mark_failure env (provider model_cfg) st4)
                            | Raises (OtherException e) \<Rightarrow>
                                (Continue (Some (OtherException e)), mark_failure env (provider model_cfg) st4)))))"

fun candidates_loop ::
  "router_env \<Rightarrow> LLMCompletionRequest \<Rightarrow> RouterCacheOptions \<Rightarrow> bool \<Rightarrow> string option \<Rightarrow>
   ModelConfig list \<Rightarrow> ModelConfig list \<Rightarrow> exn option \<Rightarrow> router_state \<Rightarrow> router_result \<times> router_state" where
  "candidates_loop env llm_request cache streaming cache_key chain [] last_error st =
     (Inl (AllProvidersFailed last_error), st)"
| "candidates_loop env llm_request cache streaming cache_key chain (model_cfg # rest) last_error st =
     (case try_candidate env llm_request cache streaming cache_key chain model_cfg last_error st of
        (Return r, st') \<Rightarrow> (Inr r, st')
      | (Raise e, st') \<Rightarrow> (Inl e, st')
      | (Break err, st') \<Rightarrow> (Inl (AllProvidersFailed err), st')
      | (Continue err, st') \<Rightarrow>
          candidates_loop env llm_request cache streaming cache_key chain rest err st')"

definition chat_completion ::
  "router_env \<Rightarrow> registry \<Rightarrow> LLMCompletionRequest \<Rightarrow> RouterCacheOptions \<Rightarrow> RouterFallbackConfig \<Rightarrow>
   RouterRequestMetadata \<Rightarrow> bool \<Rightarrow> router_state \<Rightarrow> router_result \<times> router_state" where
  "chat_completion env reg llm_request cache fb metadata streaming st =
     (let cache_key = (if cache_enabled cache \<and> \<not> streaming
                       then Some (build_cache_key env llm_request metadata) else None);
          probe = (case cache_key of
                     None \<Rightarrow> Inr None
                   | Some key \<Rightarrow> if cache_get_raises env then Inl CacheUnavailable
                                 else Inr (response_cache st key))
      in case probe of
           Inl e \<Rightarrow> (Inl e, st)
         | Inr (Some cached) \<Rightarrow>
             (Inr (\<lparr>d_provider = cp_provider cached, provider_model = cp_model cached,
                    logical_model = model llm_request, from_cache = True, fallback_chain = []\<rparr>,
                   None, Some cached), st)
         | Inr None \<Rightarrow>
             (case get_model reg (model llm_request) of
                None \<Rightarrow> (Inl (ModelNotFound (model llm_request)), st)
              | Some cfg \<Rightarrow>
                  (let chain = models_chain reg cfg fb
                   in candidates_loop env llm_request cache streaming cache_key chain chain None st)))"

text \<open>An empty router, a request and a world used by the examples below.\<close>

definition empty_router :: router_state where
  "empty_router = \<lparr>circuit_breakers = Map.empty, response_cache = Map.empty,
                    adapter_calls = [], breaker_calls = 0\<rparr>"

definition example_request :: LLMCompletionRequest where
  "example_request = \<lparr>model = ''gpt-4o'', messages = [(''user'', ''Hi'')], request_id = ''r1''\<rparr>"

definition example_metadata :: RouterRequestMetadata where
  "example_metadata = \<lparr>user_id = ''u'', org_id = ''o'', api_key_id = ''k'', md_request_id = ''r1''\<rparr>"

definition example_result :: "string \<Rightarrow> LLMCompletionRequest \<Rightarrow> LLMCompletionResult" where
  "example_result a req = \<lparr>res_provider = a, res_model = model req, content = ''Hello'',
     prompt_tokens = 3, completion_tokens = 1, finish_reason = Some ''stop''\<rparr>"

text \<open>Every adapter call succeeds; the KV refuses every write; the clock stands at 0.\<close>

definition kv_write_down_env :: router_env where
  "kv_write_down_env =
     \<lparr>adapter_result = (\<lambda>k a req. Returns (example_result a req)),
      cache_set_raises = (\<lambda>k. True),
      cache_get_raises = False,
      time_at = (\<lambda>k. 0),
      digest = (\<lambda>req md. ''d0'')\<rparr>"

text \<open>
  A router whose \<open>openai\<close> breaker has recorded five failures in a row, at the times
  1 to 5, and a world in which the clock stands at 30.
\<close>

definition tripped_router :: router_state where
  "tripped_router =
     empty_router\<lparr>circuit_breakers :=
       [''openai'' \<mapsto> foldl (\<lambda>c t. on_failure t c) (new_breaker ''openai'') [1, 2, 3, 4, 5]]\<rparr>"

definition clock_30_env :: router_env where
  "clock_30_env = kv_write_down_env\<lparr>time_at := (\<lambda>k. 30)\<rparr>"

section \<open>In-process KV (app/infrastructure/memory\_client.py)\<close>

text \<open>
  \<open>InMemoryRedis\<close> keeps one dict \<open>_data\<close>. The values the gateway stores are ints
  (counters), bytes (msgpack) and strings (JSON). No method reads a clock.
\<close>

datatype kv_value = IntVal int | BytesVal string | StrVal string

type_synonym memory_kv = "string \<rightharpoonup> kv_value"

definition mem_get :: "string \<Rightarrow> memory_kv \<Rightarrow> kv_value option" where
  "mem_get key d = d key"

text \<open>\<open>set(key, value, ex, px, nx)\<close>: the answer and the dict.\<close>

definition mem_set ::
  "string \<Rightarrow> kv_value \<Rightarrow> int option \<Rightarrow> int option \<Rightarrow> bool \<Rightarrow> memory_kv \<Rightarrow> bool \<times> memory_kv" where
  "mem_set key v ex px nx d =
     (if nx \<and> key \<in> dom d then (False, d) else (True, d(key \<mapsto> v)))"

text \<open>
  \<open>incr\<close>: a bytes value is decoded and parsed by Python's \<open>int\<close>, which is the
  parameter \<open>parse\<close> (\<open>None\<close> where it raises \<open>ValueError\<close> or the bytes are not UTF-8);
  a value that is neither bytes nor int counts as 0.
\<close>

definition mem_incr :: "(string \<Rightarrow> int option) \<Rightarrow> string \<Rightarrow> memory_kv \<Rightarrow> int \<times> memory_kv" where
  "mem_incr parse key d =
     (let val = (case d key of
                   None \<Rightarrow> 0
                 | Some (BytesVal b) \<Rightarrow> (case parse b of Some n \<Rightarrow> n | None \<Rightarrow> 0)
                 | Some (IntVal n) \<Rightarrow> n
                 | Some (StrVal s) \<Rightarrow> 0);
          new_val = val + 1
      in (new_val, d(key \<mapsto> IntVal new_val)))"

definition mem_expire :: "string \<Rightarrow> int \<Rightarrow> memory_kv \<Rightarrow> bool \<times> memory_kv" where
  "mem_expire key seconds d = (True, d)"

definition mem_ttl :: "string \<Rightarrow> memory_kv \<Rightarrow> int" where
  "mem_ttl key d = 60"

definition mem_delete :: "string list \<Rightarrow> memory_kv \<Rightarrow> int \<times> memory_kv" where
  "mem_delete keys d =
     foldl (\<lambda>(n, d') k. if k \<in> dom d' then (n + 1, d'(k := None)) else (n, d')) (0, d) keys"

definition mem_exists :: "string \<Rightarrow> memory_kv \<Rightarrow> bool" where
  "mem_exists key d = (key \<in> dom d)"

section \<open>Authentication gate (app/api/middleware/auth.py)\<close>

text \<open>
  The three KV operations the rate limiter calls, on any client state \<open>'s\<close>: the
  middleware is written against the client's methods, and is given the in-process client
  or the networked one.
\<close>

record 's kv_client =
  kv_incr :: "string \<Rightarrow> 's \<Rightarrow> int \<times> 's"
  kv_expire :: "string \<Rightarrow> int \<Rightarrow> 's \<Rightarrow> bool \<times> 's"
  kv_ttl :: "string \<Rightarrow> 's \<Rightarrow> int"

definition memory_client :: "(string \<Rightarrow> int option) \<Rightarrow> memory_kv kv_client" where
  "memory_client parse = \<lparr>kv_incr = mem_incr parse, kv_expire = mem_expire, kv_ttl = mem_ttl\<rparr>"

text \<open>Python's \<open>int(x)\<close> of a float truncates towards zero.\<close>

definition int_of_float :: "real \<Rightarrow> int" where
  "int_of_float x = (if 0 \<le> x then \<lfloor>x\<rfloor> else \<lceil>x\<rceil>)"

definition ratelimit_key :: "string \<Rightarrow> string \<Rightarrow> string" where
  "ratelimit_key lookup_hash client_ip = ''lkg:ratelimit:'' @ lookup_hash @ '':'' @ client_ip"

text \<open>
  \<open>_check_rate_limit\<close>: \<open>t\<close> is the value of \<open>time.time()\<close>. The answer is
  \<open>(allowed, remaining, reset_ts)\<close>, with the state of the KV after the call.
\<close>

definition check_rate_limit ::
  "'s kv_client \<Rightarrow> real \<Rightarrow> string \<Rightarrow> string \<Rightarrow> int \<Rightarrow> 's \<Rightarrow> (bool \<times> int \<times> int) \<times> 's" where
  "check_rate_limit c t lookup_hash client_ip limit_per_minute s =
     (let window_seconds = 60;
          now = int_of_float t;
          redis_key = ratelimit_key lookup_hash client_ip;
          (current, s1) = kv_incr c redis_key s;
          s2 = (if current = 1 then snd (kv_expire c redis_key window_seconds s1) else s1);
          ttl = kv_ttl c redis_key s2;
          reset_ts = now + (if ttl > 0 then ttl else window_seconds);
          remaining = max 0 (limit_per_minute - current)
      in ((current \<le> limit_per_minute, remaining, reset_ts), s2))"

text \<open>
  The requests of one (key, address) pair one after the other, at the times \<open>ts\<close>: the
  answers in order and the KV at the end.
\<close>

fun rate_limit_run ::
  "'s kv_client \<Rightarrow> real list \<Rightarrow> string \<Rightarrow> string \<Rightarrow> int \<Rightarrow> 's \<Rightarrow> (bool \<times> int \<times> int) list \<times> 's" where
  "rate_limit_run c [] lookup_hash client_ip limit s = ([], s)"
| "rate_limit_run c (t # ts) lookup_hash client_ip limit s =
     (let (r, s1) = check_rate_limit c t lookup_hash client_ip limit s;
          (rs, s2) = rate_limit_run c ts lookup_hash client_ip limit s1
      in (r # rs, s2))"

record ApiKeyPermissions =
  can_read :: bool
  can_write :: bool
  can_manage_keys :: bool
  is_admin :: bool
  rate_limit_per_minute :: int

record CachedApiKey =
  ck_id :: string
  ck_org_id :: string
  ck_user_id :: string
  preview :: string
  key_hash :: string
  ck_is_active :: bool
  expires_at_ts :: "real option"
  permissions :: ApiKeyPermissions

record AuthenticatedPrincipal =
  ap_api_key_id :: string
  ap_org_id :: string
  ap_user_id :: string
  key_preview :: string
  ap_permissions :: ApiKeyPermissions

text \<open>
  The credential cache: the KV under \<open>lkg:auth:apikey:{lookup_hash}\<close>. The msgpack
  codec is a library; a stored value is the record it unpacks to. A key the KV has let
  expire is an absent key.
\<close>

type_synonym auth_cache = "string \<rightharpoonup> CachedApiKey"

definition get_cached_key :: "auth_cache \<Rightarrow> real \<Rightarrow> string \<Rightarrow> CachedApiKey option \<times> bool" where
  "get_cached_key kv now lookup_hash =
     (case kv (''lkg:auth:apikey:'' @ lookup_hash) of
        None \<Rightarrow> (None, False)
      | Some cached \<Rightarrow>
          (case expires_at_ts cached of
             Some e \<Rightarrow> if e < now then (None, False) else (Some cached, True)
           | None \<Rightarrow> (Some cached, True)))"

definition principal_from_cached :: "CachedApiKey \<Rightarrow> AuthenticatedPrincipal" where
  "principal_from_cached cached =
     \<lparr>ap_api_key_id = ck_id cached, ap_org_id = ck_org_id cached, ap_user_id = ck_user_id cached,
      key_preview = preview cached, ap_permissions = permissions cached\<rparr>"

text \<open>
  The principal of \<open>dispatch\<close> and its cache-hit flag. \<open>via_db\<close> is what
  \<open>_authenticate_via_db\<close> answers for the key: a principal, or the rejection
  (\<open>None\<close>, status 401).
\<close>

definition dispatch_principal ::
  "auth_cache \<Rightarrow> real \<Rightarrow> string \<Rightarrow> AuthenticatedPrincipal option \<Rightarrow> AuthenticatedPrincipal option \<times> bool" where
  "dispatch_principal kv now lookup_hash via_db =
     (let (cached, cache_hit) = get_cached_key kv now lookup_hash
      in case cached of
           None \<Rightarrow> (via_db, cache_hit)
         | Some c \<Rightarrow> (Some (principal_from_cached c), cache_hit))"

text \<open>A cached key that expires at time 100, used by the examples below.\<close>

definition example_cached_key :: CachedApiKey where
  "example_cached_key =
     \<lparr>ck_id = ''k1'', ck_org_id = ''o1'', ck_user_id = ''u1'', preview = ''lkg_abcd'',
      key_hash = ''h1'', ck_is_active = True, expires_at_ts = Some 100,
      permissions = \<lparr>can_read = True, can_write = True, can_manage_keys = False,
                      is_admin = False, rate_limit_per_minute = 3\<rparr>\<rparr>"

definition example_auth_cache :: auth_cache where
  "example_auth_cache = [''lkg:auth:apikey:h1'' \<mapsto> example_cached_key]"

section \<open>OpenAI adapter (app/application/llm/openai\_adapter.py)\<close>

text \<open>
  What one \<open>POST chat/completions\<close> does: it answers with a status code and a body, or
  the HTTP client raises \<open>httpx.RequestError\<close>. Of the body the model keeps the result
  the adapter builds from it (\<open>None\<close> where the body has not the expected shape and the
  parsing raises).
\<close>

datatype http_outcome = Response int "LLMCompletionResult option" | RequestError string

text \<open>
  What the \<open>try\<close> body of one attempt does with the outcome of its POST: it returns the
  result, raises a \<open>ProviderError\<close>, lets the \<open>RequestError\<close> through, or raises
  something else.
\<close>

datatype attempt_outcome =
    Completed LLMCompletionResult
  | RaisedProviderError ProviderError
  | RaisedRequestError string
  | RaisedOther string

definition attempt_body :: "string \<Rightarrow> http_outcome \<Rightarrow> attempt_outcome" where
  "attempt_body mdl out =
     (case out of
        RequestError e \<Rightarrow> RaisedRequestError e
      | Response status_c body \<Rightarrow>
          if status_c \<ge> 500 \<or> status_c = 429
          then RaisedProviderError
                 \<lparr>pe_provider = ''openai'', pe_model = mdl, retryable = True, fallback = False,
                  message = ''OpenAI transient error'', status_code = Some status_c\<rparr>
          else if status_c \<ge> 400
          then RaisedProviderError
                 \<lparr>pe_provider = ''openai'', pe_model = mdl, retryable = False, fallback = True,
                  message = ''OpenAI client error'', status_code = Some status_c\<rparr>
          else (case body of
                  Some result \<Rightarrow> Completed result
                | None \<Rightarrow> RaisedOther ''response body''))"

text \<open>
  The run of \<open>acompletion\<close>: what it returns or raises, the attempts that sent a POST and
  the seconds of every \<open>asyncio.sleep\<close>, in order.
\<close>

record acompletion_run =
  outcome :: adapter_outcome
  posted :: "nat list"
  slept :: "int list"

text \<open>
  The loop \<open>for attempt in range(3)\<close> over the attempts still to make; \<open>post attempt\<close>
  is the outcome of the POST of that attempt. After the loop the adapter raises
  "retries exhausted".
\<close>

fun attempt_loop :: "(nat \<Rightarrow> http_outcome) \<Rightarrow> string \<Rightarrow> nat list \<Rightarrow> acompletion_run" where
  "attempt_loop post mdl [] =
     \<lparr>outcome = Raises (ProviderErr
         \<lparr>pe_provider = ''openai'', pe_model = mdl, retryable = True, fallback = True,
          message = ''OpenAI retries exhausted'', status_code = None\<rparr>),
      posted = [], slept = []\<rparr>"
| "attempt_loop post mdl (attempt # rest) =
     (case attempt_body mdl (post attempt) of
        Completed result \<Rightarrow> \<lparr>outcome = Returns result, posted = [attempt], slept = []\<rparr>
      | RaisedProviderError e \<Rightarrow>
          if attempt = 2
          then \<lparr>outcome = Raises (ProviderErr e), posted = [attempt], slept = []\<rparr>
          else (let r = attempt_loop post mdl rest
                in r\<lparr>posted := attempt # posted r, slept := 2 ^ attempt # slept r\<rparr>)
      | RaisedRequestError e \<Rightarrow>
          if attempt = 2
          then \<lparr>outcome = Raises (ProviderErr
                   \<lparr>pe_provider = ''openai'', pe_model = mdl, retryable = True, fallback = False,
                    message = ''OpenAI network error'', status_code = None\<rparr>),
                posted = [attempt], slept = []\<rparr>
          else (let r = attempt_loop post mdl rest
                in r\<lparr>posted := attempt # posted r, slept := 2 ^ attempt # slept r\<rparr>)
      | RaisedOther e \<Rightarrow> \<lparr>outcome = Raises (OtherException e), posted = [attempt], slept = []\<rparr>)"

definition acompletion :: "(nat \<Rightarrow> http_outcome) \<Rightarrow> LLMCompletionRequest \<Rightarrow> acompletion_run" where
  "acompletion post request = attempt_loop post (model request) [0, 1, 2]"

section \<open>Properties of the circuit breaker\<close>

text \<open>
  C3 (as stated): in every state and for every prior failure count, \<open>on_success\<close>
  leaves the breaker closed with \<open>failure_count = 0\<close>. This fails for a breaker that is
  already closed: the reset is guarded by \<open>state \<noteq> CLOSED\<close>, so a closed breaker that
  has counted three failures still counts three after a success.
\<close>

theorem on_success_closed_keeps_count_counterexample:
  "\<not> (failure_count (on_success ((new_breaker ''openai'')\<lparr>failure_count := 3\<rparr>)) = 0)"
  by (simp add: on_success_def new_breaker_def)

text \<open>
  C3 (amended): \<open>on_success\<close> always leaves the breaker in state closed; it resets
  \<open>failure_count\<close> to 0 and clears \<open>opened_at_ts\<close> when the breaker was open or
  half-open, and leaves a closed breaker entirely unchanged (its failure count is kept).
\<close>

theorem on_success_amended:
  "state (on_success cb) = CLOSED \<and>
   (state cb \<noteq> CLOSED \<longrightarrow>
      failure_count (on_success cb) = 0 \<and> opened_at_ts (on_success cb) = None) \<and>
   (state cb = CLOSED \<longrightarrow> on_success cb = cb)"
  by (simp add: on_success_def)

theorem on_success_amended_witness:
  "state ((new_breaker ''openai'')\<lparr>state := OPEN, failure_count := 5, opened_at_ts := Some 10\<rparr>) \<noteq> CLOSED \<and>
   failure_count (on_success ((new_breaker ''openai'')\<lparr>state := OPEN, failure_count := 5, opened_at_ts := Some 10\<rparr>)) = 0 \<and>
   state (new_breaker ''openai'') = CLOSED \<and>
   on_success (new_breaker ''openai'') = new_breaker ''openai''"
  using on_success_amended [of "(new_breaker ''openai'')\<lparr>state := OPEN, failure_count := 5, opened_at_ts := Some 10\<rparr>"]
    on_success_amended [of "new_breaker ''openai''"]
  by (simp add: new_breaker_def)

section \<open>Properties of the registries\<close>

lemma mem_list_models_filter:
  "mem_list_models snapshot prov cap active_only =
     sorted_by_priority_reverse (filter (spec_matches prov cap active_only) (map snd snapshot))"
  by (auto simp: mem_list_models_def spec_matches_def Let_def split: option.splits
           intro!: arg_cong [where f = sorted_by_priority_reverse] filter_cong)

lemma sorted_by_priority_reverse_desc:
  "sorted_wrt (\<lambda>a b. priority a \<ge> priority b) (sorted_by_priority_reverse ms)"
proof -
  have "sorted (map (\<lambda>m. - priority m) (sort_key (\<lambda>m. - priority m) ms))"
    by (rule sorted_sort_key)
  then show ?thesis
    by (simp add: sorted_by_priority_reverse_def sorted_map)
qed

lemma sorted_by_priority_reverse_stable:
  "filter (\<lambda>m. priority m = k) (sorted_by_priority_reverse ms) = filter (\<lambda>m. priority m = k) ms"
proof -
  have "filter (\<lambda>m. - priority m = - k) (sort_key (\<lambda>m. - priority m) ms)
          = filter (\<lambda>m. - priority m = - k) ms"
    by (rule sort_key_stable)
  then show ?thesis
    by (simp add: sorted_by_priority_reverse_def)
qed

text \<open>
  The in-memory fallback chain does what the registry contract says: active snapshot of
  the failed model's provider, the failed model left out, priority descending.
\<close>

lemma mem_get_fallback_chain_sound:
  assumes "mem_get_model snapshot failed_model = Some base_model"
  shows "(\<forall>m \<in> set (mem_get_fallback_chain snapshot failed_model).
            is_active m \<and> provider m = provider base_model \<and> model_name m \<noteq> model_name base_model)
         \<and> sorted_wrt (\<lambda>a b. priority a \<ge> priority b) (mem_get_fallback_chain snapshot failed_model)"
proof -
  have chain: "mem_get_fallback_chain snapshot failed_model =
      filter (\<lambda>m. provider m = provider base_model \<and> model_name m \<noteq> model_name base_model)
        (sorted_by_priority_reverse (filter (spec_matches None None True) (map snd snapshot)))"
    using assms by (simp add: mem_get_fallback_chain_def mem_list_models_filter)
  have "sorted_wrt (\<lambda>a b. priority a \<ge> priority b) (mem_get_fallback_chain snapshot failed_model)"
    unfolding chain by (intro sorted_wrt_filter sorted_by_priority_reverse_desc)
  moreover have "\<forall>m \<in> set (mem_get_fallback_chain snapshot failed_model).
      is_active m \<and> provider m = provider base_model \<and> model_name m \<noteq> model_name base_model"
    unfolding chain by (auto simp: sorted_by_priority_reverse_def spec_matches_def)
  ultimately show ?thesis by blast
qed

text \<open>
  C5 (the code at the failing input): the KV-backed \<open>get_fallback_chain\<close>, asked for the
  fallbacks of \<open>openai:gpt-4o\<close> in a registry that also holds an Anthropic model, returns
  the Anthropic model too, and lists the chain by priority ascending (5 before 7).
\<close>

theorem redis_get_fallback_chain_failing_input:
  "redis_get_fallback_chain example_redis_registry ''openai:gpt-4o'' = [gpt_4o_mini, claude_3] \<and>
   map provider (redis_get_fallback_chain example_redis_registry ''openai:gpt-4o'')
     = [''openai'', ''anthropic''] \<and>
   map priority (redis_get_fallback_chain example_redis_registry ''openai:gpt-4o'') = [5, 7]"
  by (simp add: redis_get_fallback_chain_def redis_list_models_def example_redis_registry_def
        sorted_by_priority_def List.map_filter_def gpt_4o_def gpt_4o_mini_def claude_3_def)

text \<open>
  C6 (as stated): both backings list by priority descending, ties by provider ascending.
  The in-memory snapshot of two snapshot of equal priority, the OpenAI row first, is
  listed with \<open>openai\<close> before \<open>anthropic\<close>; the KV-backed registry lists priority 5
  before 7 before 10.
\<close>

theorem list_models_order_counterexample:
  "\<not> spec_list_order
        (mem_list_models (mem_refresh [gpt_4o, claude_3\<lparr>priority := 10\<rparr>]) None None True) \<and>
   \<not> spec_list_order (redis_list_models example_redis_registry None None True)"
  by (simp add: spec_list_order_def mem_list_models_def mem_refresh_def dict_set_def
        sorted_by_priority_reverse_def redis_list_models_def example_redis_registry_def
        sorted_by_priority_def List.map_filter_def gpt_4o_def gpt_4o_mini_def claude_3_def)

text \<open>
  C6 (amended): for every in-memory registry state and every filter, \<open>list_models\<close>
  returns exactly the matching configs of the snapshot (with their multiplicity), sorted
  by priority descending, and snapshot of equal priority stay in snapshot order (the sort
  is stable; the provider does not break ties).
\<close>

theorem mem_list_models_amended:
  "sorted_wrt (\<lambda>a b. priority a \<ge> priority b) (mem_list_models snapshot prov cap active_only) \<and>
   mset (mem_list_models snapshot prov cap active_only)
     = mset (filter (spec_matches prov cap active_only) (map snd snapshot)) \<and>
   (\<forall>k. filter (\<lambda>m. priority m = k) (mem_list_models snapshot prov cap active_only)
        = filter (\<lambda>m. priority m = k) (filter (spec_matches prov cap active_only) (map snd snapshot)))"
  unfolding mem_list_models_filter
  using sorted_by_priority_reverse_desc sorted_by_priority_reverse_stable
  by (simp add: sorted_by_priority_reverse_def)

theorem mem_list_models_amended_witness:
  "mem_list_models [(''gpt-4o'', gpt_4o), (''claude-3'', claude_3\<lparr>priority := 10\<rparr>),
                    (''gpt-4o-mini'', gpt_4o_mini)] (Some ''openai'') (Some STREAMING) True
     = [gpt_4o, gpt_4o_mini] \<and>
   sorted_wrt (\<lambda>a b. priority a \<ge> priority b)
     (mem_list_models [(''gpt-4o'', gpt_4o), (''claude-3'', claude_3\<lparr>priority := 10\<rparr>),
                       (''gpt-4o-mini'', gpt_4o_mini)] (Some ''openai'') (Some STREAMING) True)"
  using mem_list_models_amended [of "[(''gpt-4o'', gpt_4o), (''claude-3'', claude_3\<lparr>priority := 10\<rparr>),
                    (''gpt-4o-mini'', gpt_4o_mini)]" "Some ''openai''" "Some STREAMING" True]
  by (simp add: mem_list_models_def sorted_by_priority_reverse_def gpt_4o_def gpt_4o_mini_def
        claude_3_def)

section \<open>Properties of the router\<close>

lemma failures_keep_settings:
  "failure_threshold (foldl (\<lambda>c t. on_failure t c) cb ts) = failure_threshold cb \<and>
   reset_timeout_s (foldl (\<lambda>c t. on_failure t c) cb ts) = reset_timeout_s cb \<and>
   failure_count (foldl (\<lambda>c t. on_failure t c) cb ts) = failure_count cb + int (length ts)"
  by (induction ts arbitrary: cb) (simp_all add: on_failure_def Let_def)

text \<open>
  Failures recorded one after the other (no success between them), as many as the
  threshold: the breaker is open and \<open>opened_at_ts\<close> is the time of the last failure.
\<close>

lemma failures_open_breaker:
  assumes "0 < failure_threshold cb" and "0 \<le> failure_count cb"
    and "int (length ts) = failure_threshold cb"
  shows "state (foldl (\<lambda>c t. on_failure t c) cb ts) = OPEN \<and>
         opened_at_ts (foldl (\<lambda>c t. on_failure t c) cb ts) = Some (last ts)"
proof -
  from assms have "ts \<noteq> []" by auto
  then obtain us t where ts: "ts = us @ [t]"
    by (metis rev_exhaust)
  define cb1 where "cb1 = foldl (\<lambda>c t. on_failure t c) cb us"
  have "failure_count cb1 + 1 \<ge> failure_threshold cb1"
    using assms failures_keep_settings [of cb us] by (simp add: cb1_def ts)
  then have "state (on_failure t cb1) = OPEN \<and> opened_at_ts (on_failure t cb1) = Some t"
    by (simp add: on_failure_def Let_def)
  then show ?thesis
    by (simp add: ts cb1_def)
qed

lemma open_breaker_denies:
  assumes "state cb = OPEN" and "opened_at_ts cb = Some t"
    and "now - t < real_of_int (reset_timeout_s cb)"
  shows "allow_request now cb = Some (False, cb)"
  using assms by (simp add: allow_request_def)

lemma denied_candidate_is_skipped:
  assumes "circuit_breakers st (provider m) = Some cb"
    and "allow_request (time_at env (breaker_calls st)) cb = Some (False, cb)"
    and "get_adapter (provider m) = Some a"
  shows "try_candidate env req cache streaming key chain m last_error st
           = (Continue last_error, st\<lparr>breaker_calls := breaker_calls st + 1\<rparr>)"
  using assms
  by (simp add: try_candidate_def get_circuit_breaker_def Let_def map_upd_triv)

text \<open>
  C1 (as stated): with fallback enabled and \<open>models = []\<close> the chain holds the primary
  only. In the KV-backed registry of three models the chain for \<open>gpt-4o\<close> holds the two
  other models as well: the empty list is "no allow-list", not "no fallback".
\<close>

theorem empty_allow_list_counterexample:
  "models_chain (redis_registry_of example_redis_registry) gpt_4o
      \<lparr>fallback_enabled = True, models = []\<rparr> \<noteq> [gpt_4o]"
  by (simp add: models_chain_def redis_registry_of_def redis_get_fallback_chain_def
        redis_list_models_def example_redis_registry_def sorted_by_priority_def
        List.map_filter_def gpt_4o_def gpt_4o_mini_def claude_3_def)

text \<open>
  C1 (amended): when fallback is enabled and the caller's list of fallback models is
  empty, the candidate chain is the primary model followed by the registry's whole
  fallback chain for the primary, unfiltered; the chain holds the primary alone only
  when fallback is not enabled or the registry has no fallback for it.
\<close>

theorem empty_allow_list_amended:
  "(fallback_enabled fb \<and> models fb = [] \<longrightarrow>
      models_chain reg cfg fb
        = cfg # get_fallback_chain reg (provider cfg @ '':'' @ model_name cfg)) \<and>
   (\<not> fallback_enabled fb \<longrightarrow> models_chain reg cfg fb = [cfg])"
  by (simp add: models_chain_def)

theorem empty_allow_list_amended_witness:
  "fallback_enabled \<lparr>fallback_enabled = True, models = []\<rparr> \<and>
   models \<lparr>fallback_enabled = True, models = []\<rparr> = [] \<and>
   models_chain (redis_registry_of example_redis_registry) gpt_4o
      \<lparr>fallback_enabled = True, models = []\<rparr> = [gpt_4o, gpt_4o_mini, claude_3] \<and>
   \<not> fallback_enabled \<lparr>fallback_enabled = False, models = []\<rparr> \<and>
   models_chain (redis_registry_of example_redis_registry) gpt_4o
      \<lparr>fallback_enabled = False, models = []\<rparr> = [gpt_4o]"
  using empty_allow_list_amended [of "\<lparr>fallback_enabled = True, models = []\<rparr>"
          "redis_registry_of example_redis_registry" gpt_4o]
    empty_allow_list_amended [of "\<lparr>fallback_enabled = False, models = []\<rparr>"
          "redis_registry_of example_redis_registry" gpt_4o]
  by (simp add: redis_registry_of_def redis_get_fallback_chain_def
        redis_list_models_def example_redis_registry_def sorted_by_priority_def
        List.map_filter_def gpt_4o_def gpt_4o_mini_def claude_3_def)

text \<open>
  C2 (the code at the failing input): a cache-enabled, non-streaming request for
  \<open>gpt-4o\<close>, no fallback, a fresh router; the adapter's completion succeeds and the KV
  \<open>set\<close> of the write-through raises. The router called the adapter once, and then
  fails the request with "All provider candidates failed" carrying the KV exception;
  the breaker of \<open>openai\<close> has counted one failure.
\<close>

theorem cache_write_failure_failing_input:
  "fst (chat_completion kv_write_down_env (memory_registry_of (mem_refresh [gpt_4o]))
          example_request \<lparr>cache_enabled = True, ttl_seconds = 3600\<rparr>
          \<lparr>fallback_enabled = False, models = []\<rparr> example_metadata False empty_router)
     = Inl (AllProvidersFailed (Some (OtherException ''cache set''))) \<and>
   adapter_calls (snd (chat_completion kv_write_down_env (memory_registry_of (mem_refresh [gpt_4o]))
          example_request \<lparr>cache_enabled = True, ttl_seconds = 3600\<rparr>
          \<lparr>fallback_enabled = False, models = []\<rparr> example_metadata False empty_router))
     = [(''openai'', example_request)] \<and>
   map_option failure_count
     (circuit_breakers (snd (chat_completion kv_write_down_env (memory_registry_of (mem_refresh [gpt_4o]))
          example_request \<lparr>cache_enabled = True, ttl_seconds = 3600\<rparr>
          \<lparr>fallback_enabled = False, models = []\<rparr> example_metadata False empty_router)) ''openai'')
     = Some 1"
  by (simp add: chat_completion_def kv_write_down_env_def memory_registry_of_def mem_refresh_def
        dict_set_def mem_get_model_def gpt_4o_def example_request_def example_metadata_def
        empty_router_def models_chain_def build_cache_key_def try_candidate_def get_adapter_def
        lower_char_def get_circuit_breaker_def new_breaker_def allow_request_def mark_success_def
        mark_failure_def on_success_def on_failure_def example_result_def Let_def)

text \<open>
  C9: after as many failures recorded in a row on the breaker of provider P as its
  threshold (5 by default), a candidate of P that the router reaches while less than
  \<open>reset_timeout_s\<close> (60 by default) has passed since the last failure is denied: the
  pass calls no adapter (the call log is as before), and the router goes on to the rest
  of the chain with no change but the count of breaker calls, or raises for a provider
  the factory does not know.
\<close>

theorem open_breaker_skips_adapter:
  assumes "0 < failure_threshold cb" and "0 \<le> failure_count cb"
    and "int (length ts) = failure_threshold cb"
    and "circuit_breakers st (provider m) = Some (foldl (\<lambda>c t. on_failure t c) cb ts)"
    and "time_at env (breaker_calls st) - last ts < real_of_int (reset_timeout_s cb)"
  shows "adapter_calls (snd (try_candidate env req cache streaming key chain m last_error st))
           = adapter_calls st \<and>
         candidates_loop env req cache streaming key chain (m # rest) last_error st
           = (case get_adapter (provider m) of
                None \<Rightarrow> (Inl (UnknownProvider (provider m)), st)
              | Some a \<Rightarrow> candidates_loop env req cache streaming key chain rest last_error
                           (st\<lparr>breaker_calls := breaker_calls st + 1\<rparr>))"
proof (cases "get_adapter (provider m)")
  case None
  then show ?thesis by (simp add: try_candidate_def)
next
  case (Some a)
  define cb' where "cb' = foldl (\<lambda>c t. on_failure t c) cb ts"
  have "state cb' = OPEN" and "opened_at_ts cb' = Some (last ts)"
    using failures_open_breaker [OF assms(1-3)] by (simp_all add: cb'_def)
  moreover have "reset_timeout_s cb' = reset_timeout_s cb"
    using failures_keep_settings [of cb ts] by (simp add: cb'_def)
  ultimately have "allow_request (time_at env (breaker_calls st)) cb' = Some (False, cb')"
    using assms(5) by (intro open_breaker_denies) simp_all
  with assms(4) Some
  have "try_candidate env req cache streaming key chain m last_error st
          = (Continue last_error, st\<lparr>breaker_calls := breaker_calls st + 1\<rparr>)"
    by (intro denied_candidate_is_skipped) (simp_all add: cb'_def)
  with Some show ?thesis by simp
qed

theorem open_breaker_skips_adapter_witness:
  "0 < failure_threshold (new_breaker ''openai'') \<and>
   0 \<le> failure_count (new_breaker ''openai'') \<and>
   int (length [1, 2, 3, 4, 5 :: real]) = failure_threshold (new_breaker ''openai'') \<and>
   circuit_breakers tripped_router (provider gpt_4o)
     = Some (foldl (\<lambda>c t. on_failure t c) (new_breaker ''openai'') [1, 2, 3, 4, 5]) \<and>
   time_at clock_30_env (breaker_calls tripped_router) - last [1, 2, 3, 4, 5]
     < real_of_int (reset_timeout_s (new_breaker ''openai'')) \<and>
   candidates_loop clock_30_env example_request \<lparr>cache_enabled = False, ttl_seconds = 3600\<rparr>
       False None [gpt_4o] [gpt_4o] None tripped_router
     = (Inl (AllProvidersFailed None), tripped_router\<lparr>breaker_calls := 1\<rparr>) \<and>
   adapter_calls (snd (try_candidate clock_30_env example_request
       \<lparr>cache_enabled = False, ttl_seconds = 3600\<rparr> False None [gpt_4o] gpt_4o None tripped_router))
     = []"
proof -
  have h1: "0 < failure_threshold (new_breaker ''openai'')"
    and h2: "0 \<le> failure_count (new_breaker ''openai'')"
    and h3: "int (length [1, 2, 3, 4, 5 :: real]) = failure_threshold (new_breaker ''openai'')"
    by (simp_all add: new_breaker_def)
  have h4: "circuit_breakers tripped_router (provider gpt_4o)
     = Some (foldl (\<lambda>c t. on_failure t c) (new_breaker ''openai'') [1, 2, 3, 4, 5])"
    by (simp add: tripped_router_def empty_router_def gpt_4o_def)
  have h5: "time_at clock_30_env (breaker_calls tripped_router) - last [1, 2, 3, 4, 5]
     < real_of_int (reset_timeout_s (new_breaker ''openai''))"
    by (simp add: clock_30_env_def kv_write_down_env_def new_breaker_def)
  have a: "get_adapter (provider gpt_4o) = Some ''openai''"
    by (simp add: get_adapter_def gpt_4o_def lower_char_def)
  have e: "adapter_calls tripped_router = []" "breaker_calls tripped_router = 0"
    by (simp_all add: tripped_router_def empty_router_def)
  show ?thesis
    using h1 h2 h3 h4 h5
      open_breaker_skips_adapter [OF h1 h2 h3 h4 h5, of example_request
        "\<lparr>cache_enabled = False, ttl_seconds = 3600\<rparr>" False None "[gpt_4o]" None "[]"]
    by (simp add: a e)
qed

section \<open>Properties of the authentication gate\<close>

lemma check_rate_limit_answer:
  assumes "kv_incr c (ratelimit_key h ip) s = (N, s1)"
  shows "fst (fst (check_rate_limit c t h ip L s)) = (N \<le> L)"
    and "fst (snd (fst (check_rate_limit c t h ip L s))) = max 0 (L - N)"
  using assms by (simp_all add: check_rate_limit_def Let_def)

text \<open>
  C7: let \<open>N\<close> be the value the atomic increment of the pair's counter returns in a
  rate-limit check with limit \<open>L\<close> (\<open>L\<close> not negative; \<open>N\<close> at least 1, the counter
  starting from nothing). The check allows the request exactly when \<open>N \<le> L\<close>, so
  \<open>N = L\<close> is allowed and \<open>N = L + 1\<close> is denied; the remaining value is
  \<open>max 0 (L - N)\<close>, lies in \<open>[0, L]\<close>, and a later check in which the counter has grown
  to \<open>N' \<ge> N\<close> returns a remaining value that is not larger.
\<close>

theorem rate_limit_decision:
  assumes "kv_incr c (ratelimit_key h ip) s = (N, s1)"
    and "kv_incr c (ratelimit_key h ip) s' = (N', s1')"
    and "0 \<le> L" and "1 \<le> N" and "N \<le> N'"
  shows "(fst (fst (check_rate_limit c t h ip L s)) \<longleftrightarrow> N \<le> L) \<and>
         (N = L \<longrightarrow> fst (fst (check_rate_limit c t h ip L s))) \<and>
         (N = L + 1 \<longrightarrow> \<not> fst (fst (check_rate_limit c t h ip L s))) \<and>
         fst (snd (fst (check_rate_limit c t h ip L s))) = max 0 (L - N) \<and>
         0 \<le> fst (snd (fst (check_rate_limit c t h ip L s))) \<and>
         fst (snd (fst (check_rate_limit c t h ip L s))) \<le> L \<and>
         fst (snd (fst (check_rate_limit c t' h ip L s')))
           \<le> fst (snd (fst (check_rate_limit c t h ip L s)))"
  using assms
  by (simp add: check_rate_limit_answer [OF assms(1)] check_rate_limit_answer [OF assms(2)])

theorem rate_limit_decision_witness:
  "kv_incr (memory_client (\<lambda>b. None)) (ratelimit_key ''h1'' ''10.0.0.1'') Map.empty
     = (1, [ratelimit_key ''h1'' ''10.0.0.1'' \<mapsto> IntVal 1]) \<and>
   kv_incr (memory_client (\<lambda>b. None)) (ratelimit_key ''h1'' ''10.0.0.1'')
       [ratelimit_key ''h1'' ''10.0.0.1'' \<mapsto> IntVal 3]
     = (4, [ratelimit_key ''h1'' ''10.0.0.1'' \<mapsto> IntVal 4]) \<and>
   fst (check_rate_limit (memory_client (\<lambda>b. None)) 1000 ''h1'' ''10.0.0.1'' 3 Map.empty)
     = (True, 2, 1060) \<and>
   fst (check_rate_limit (memory_client (\<lambda>b. None)) 1001 ''h1'' ''10.0.0.1'' 3
          [ratelimit_key ''h1'' ''10.0.0.1'' \<mapsto> IntVal 3])
     = (False, 0, 1061)"
proof -
  have h1: "kv_incr (memory_client (\<lambda>b. None)) (ratelimit_key ''h1'' ''10.0.0.1'') Map.empty
     = (1, [ratelimit_key ''h1'' ''10.0.0.1'' \<mapsto> IntVal 1])"
    by (simp add: memory_client_def mem_incr_def)
  have h2: "kv_incr (memory_client (\<lambda>b. None)) (ratelimit_key ''h1'' ''10.0.0.1'')
       [ratelimit_key ''h1'' ''10.0.0.1'' \<mapsto> IntVal 3]
     = (4, [ratelimit_key ''h1'' ''10.0.0.1'' \<mapsto> IntVal 4])"
    by (simp add: memory_client_def mem_incr_def)
  have h3: "(0::int) \<le> 3" and h4: "(1::int) \<le> 1" and h5: "(1::int) \<le> 4"
    by simp_all
  show ?thesis
    using h1 h2 rate_limit_decision [OF h1 h2 h3 h4 h5, of 1000 1001]
    by (simp add: check_rate_limit_def memory_client_def mem_incr_def mem_expire_def mem_ttl_def
          int_of_float_def Let_def)
qed

text \<open>
  C8 (as stated): a cached key whose \<open>expires_at_ts\<close> is at most the current time is a
  miss, also at \<open>expires_at_ts = now\<close>. The comparison is strict: the key that expires
  at 100, read at time 100, is a hit, and the principal is built from it whatever the
  credential store would answer.
\<close>

theorem cached_key_boundary_counterexample:
  "expires_at_ts example_cached_key = Some 100 \<and>
   get_cached_key example_auth_cache 100 ''h1'' \<noteq> (None, False) \<and>
   get_cached_key example_auth_cache 100 ''h1'' = (Some example_cached_key, True) \<and>
   dispatch_principal example_auth_cache 100 ''h1'' None
     = (Some (principal_from_cached example_cached_key), True)"
  by (simp add: get_cached_key_def dispatch_principal_def example_auth_cache_def
        example_cached_key_def)

text \<open>
  C8 (amended): a cached key whose \<open>expires_at_ts\<close> is strictly less than the current
  time is treated as a miss, whatever the KV still holds: the principal is what the
  credential store answers and the cache-hit flag is off. A cached key with
  \<open>expires_at_ts\<close> equal to or after the current time is a hit.
\<close>

theorem cached_key_expiry_amended:
  assumes "kv (''lkg:auth:apikey:'' @ lookup_hash) = Some cached"
    and "expires_at_ts cached = Some e"
  shows "(e < now \<longrightarrow> get_cached_key kv now lookup_hash = (None, False) \<and>
                      dispatch_principal kv now lookup_hash via_db = (via_db, False)) \<and>
         (now \<le> e \<longrightarrow> get_cached_key kv now lookup_hash = (Some cached, True) \<and>
                      dispatch_principal kv now lookup_hash via_db
                        = (Some (principal_from_cached cached), True))"
  using assms by (simp add: get_cached_key_def dispatch_principal_def)

theorem cached_key_expiry_amended_witness:
  "example_auth_cache (''lkg:auth:apikey:'' @ ''h1'') = Some example_cached_key \<and>
   expires_at_ts example_cached_key = Some 100 \<and>
   (100::real) < 101 \<and>
   get_cached_key example_auth_cache 101 ''h1'' = (None, False) \<and>
   dispatch_principal example_auth_cache 101 ''h1'' None = (None, False) \<and>
   (99::real) \<le> 100 \<and>
   get_cached_key example_auth_cache 99 ''h1'' = (Some example_cached_key, True)"
proof -
  have h1: "example_auth_cache (''lkg:auth:apikey:'' @ ''h1'') = Some example_cached_key"
    by (simp add: example_auth_cache_def)
  have h2: "expires_at_ts example_cached_key = Some 100"
    by (simp add: example_cached_key_def)
  show ?thesis
    using h1 h2
      cached_key_expiry_amended [where kv = example_auth_cache and lookup_hash = "''h1''"
        and cached = example_cached_key and e = 100 and now = 101 and via_db = None, OF h1 h2]
      cached_key_expiry_amended [where kv = example_auth_cache and lookup_hash = "''h1''"
        and cached = example_cached_key and e = 100 and now = 99 and via_db = None, OF h1 h2]
    by simp
qed

text \<open>The counter as \<open>incr\<close> of the in-process KV reads it.\<close>

lemma mem_check_rate_limit:
  assumes "d (ratelimit_key h ip) = None \<and> c = 0 \<or> d (ratelimit_key h ip) = Some (IntVal c)"
  shows "check_rate_limit (memory_client parse) t h ip L d
           = ((c + 1 \<le> L, max 0 (L - (c + 1)), int_of_float t + 60),
              d(ratelimit_key h ip \<mapsto> IntVal (c + 1)))"
  using assms
  by (auto simp: check_rate_limit_def memory_client_def mem_incr_def mem_expire_def mem_ttl_def
        Let_def)

lemma mem_rate_limit_run:
  assumes "d (ratelimit_key h ip) = None \<and> c = 0 \<or> d (ratelimit_key h ip) = Some (IntVal c)"
  shows "length (fst (rate_limit_run (memory_client parse) ts h ip L d)) = length ts \<and>
         (\<forall>i < length ts. fst (rate_limit_run (memory_client parse) ts h ip L d) ! i
             = (c + int i + 1 \<le> L, max 0 (L - (c + int i + 1)), int_of_float (ts ! i) + 60)) \<and>
         (ts \<noteq> [] \<longrightarrow> snd (rate_limit_run (memory_client parse) ts h ip L d) (ratelimit_key h ip)
             = Some (IntVal (c + int (length ts))))"
  using assms
proof (induction ts arbitrary: d c)
  case Nil
  then show ?case by simp
next
  case (Cons t ts)
  define d1 where "d1 = d(ratelimit_key h ip \<mapsto> IntVal (c + 1))"
  have step: "check_rate_limit (memory_client parse) t h ip L d
           = ((c + 1 \<le> L, max 0 (L - (c + 1)), int_of_float t + 60), d1)"
    unfolding d1_def
    using Cons.prems by (rule mem_check_rate_limit [where d = d and c = c and h = h and ip = ip])
  have "d1 (ratelimit_key h ip) = None \<and> c + 1 = 0 \<or> d1 (ratelimit_key h ip) = Some (IntVal (c + 1))"
    by (simp add: d1_def)
  from Cons.IH [where d = d1 and c = "c + 1", OF this]
  have ih: "length (fst (rate_limit_run (memory_client parse) ts h ip L d1)) = length ts"
    "\<And>i. i < length ts \<Longrightarrow> fst (rate_limit_run (memory_client parse) ts h ip L d1) ! i
             = (c + 1 + int i + 1 \<le> L, max 0 (L - (c + 1 + int i + 1)), int_of_float (ts ! i) + 60)"
    "ts \<noteq> [] \<Longrightarrow> snd (rate_limit_run (memory_client parse) ts h ip L d1) (ratelimit_key h ip)
             = Some (IntVal (c + 1 + int (length ts)))"
    by simp_all
  have run: "rate_limit_run (memory_client parse) (t # ts) h ip L d
      = ((c + 1 \<le> L, max 0 (L - (c + 1)), int_of_float t + 60)
           # fst (rate_limit_run (memory_client parse) ts h ip L d1),
         snd (rate_limit_run (memory_client parse) ts h ip L d1))"
    by (simp add: step split: prod.splits)
  have "\<forall>i < length (t # ts). fst (rate_limit_run (memory_client parse) (t # ts) h ip L d) ! i
             = (c + int i + 1 \<le> L, max 0 (L - (c + int i + 1)), int_of_float ((t # ts) ! i) + 60)"
  proof (intro allI impI)
    fix i assume "i < length (t # ts)"
    then show "fst (rate_limit_run (memory_client parse) (t # ts) h ip L d) ! i
             = (c + int i + 1 \<le> L, max 0 (L - (c + int i + 1)), int_of_float ((t # ts) ! i) + 60)"
      by (cases i) (auto simp: run ih(2) simp del: rate_limit_run.simps)
  qed
  moreover have "snd (rate_limit_run (memory_client parse) (t # ts) h ip L d) (ratelimit_key h ip)
             = Some (IntVal (c + int (length (t # ts))))"
  proof (cases "ts = []")
    case True
    with run show ?thesis by (simp add: d1_def del: rate_limit_run.simps(2))
  next
    case False
    then show ?thesis by (simp add: run ih(3) del: rate_limit_run.simps)
  qed
  ultimately show ?case
    by (simp add: run ih(1) del: rate_limit_run.simps)
qed

text \<open>
  C10: in the in-process KV \<open>expire\<close> changes nothing, \<open>ttl\<close> answers 60 and \<open>set\<close>
  does the same whatever \<open>ex\<close> is. So for a pair that starts with no counter, the
  \<open>i\<close>-th request (counted from 0) is allowed exactly when \<open>i + 1 \<le> limit\<close>, at whatever
  times \<open>ts\<close> the requests come: every request after the first \<open>limit\<close> ones is denied,
  and the counter ends at the number of requests made.
\<close>

theorem memory_kv_counter_never_resets:
  assumes "d (ratelimit_key h ip) = None"
  shows "mem_expire key seconds d = (True, d) \<and>
         mem_ttl key d = 60 \<and>
         mem_set key v ex px nx d = mem_set key v None px nx d \<and>
         (\<forall>i < length ts.
            fst (fst (rate_limit_run (memory_client parse) ts h ip L d) ! i) = (int i + 1 \<le> L)) \<and>
         (\<forall>i < length ts. L \<le> int i \<longrightarrow>
            \<not> fst (fst (rate_limit_run (memory_client parse) ts h ip L d) ! i)) \<and>
         (ts \<noteq> [] \<longrightarrow>
            snd (rate_limit_run (memory_client parse) ts h ip L d) (ratelimit_key h ip)
              = Some (IntVal (int (length ts))))"
proof -
  have "d (ratelimit_key h ip) = None \<and> (0::int) = 0 \<or> d (ratelimit_key h ip) = Some (IntVal 0)"
    using assms by simp
  from mem_rate_limit_run [where d = d and c = 0 and h = h and ip = ip and parse = parse
      and ts = ts and L = L, OF this]
  show ?thesis
    by (simp add: mem_expire_def mem_ttl_def mem_set_def)
qed

theorem memory_kv_counter_never_resets_witness:
  "(Map.empty :: memory_kv) (ratelimit_key ''h1'' ''10.0.0.1'') = None \<and>
   map fst (fst (rate_limit_run (memory_client (\<lambda>b. None)) [0, 1, 2, 86400, 31536000]
                   ''h1'' ''10.0.0.1'' 3 Map.empty))
     = [True, True, True, False, False] \<and>
   \<not> fst (fst (rate_limit_run (memory_client (\<lambda>b. None)) [0, 1, 2, 86400, 31536000]
                   ''h1'' ''10.0.0.1'' 3 Map.empty) ! 4)"
proof -
  have h: "(Map.empty :: memory_kv) (ratelimit_key ''h1'' ''10.0.0.1'') = None"
    by simp
  have l: "(4::nat) < length [0, 1, 2, 86400, 31536000 :: real]" "(3::int) \<le> int 4"
    by simp_all
  have run: "map fst (fst (rate_limit_run (memory_client (\<lambda>b. None)) [0, 1, 2, 86400, 31536000]
                   ''h1'' ''10.0.0.1'' 3 Map.empty))
     = [True, True, True, False, False]"
    by (simp add: check_rate_limit_def memory_client_def mem_incr_def mem_expire_def mem_ttl_def
          Let_def)
  show ?thesis
    using h l run
      memory_kv_counter_never_resets [where d = "Map.empty :: memory_kv" and h = "''h1''"
        and ip = "''10.0.0.1''" and ts = "[0, 1, 2, 86400, 31536000]" and parse = "\<lambda>b. None"
        and L = 3, OF h]
    by simp
qed

section \<open>Properties of the OpenAI adapter\<close>

text \<open>
  Whatever the POSTs do, \<open>acompletion\<close> sends at most three of them, and it sleeps
  \<open>2 ^ attempt\<close> seconds after every attempt it retries: 1 second after the first, 2
  after the second, nothing after the third.
\<close>

lemma acompletion_backoff:
  "posted (acompletion post request) = take (length (posted (acompletion post request))) [0, 1, 2] \<and>
   posted (acompletion post request) \<noteq> [] \<and>
   slept (acompletion post request) = map (\<lambda>a. 2 ^ a) (butlast (posted (acompletion post request)))"
  by (simp add: acompletion_def Let_def split: attempt_outcome.splits)

text \<open>An error classified \<open>retryable=True\<close> at every attempt: three POSTs, sleeps 1 and 2.\<close>

lemma acompletion_retryable:
  assumes "\<forall>a. \<exists>e. attempt_body (model request) (post a) = RaisedProviderError e \<and> retryable e"
  shows "posted (acompletion post request) = [0, 1, 2] \<and> slept (acompletion post request) = [1, 2] \<and>
         (\<exists>e. outcome (acompletion post request) = Raises (ProviderErr e) \<and> retryable e)"
proof -
  obtain e0 e1 e2 where
    "attempt_body (model request) (post 0) = RaisedProviderError e0"
    "attempt_body (model request) (post 1) = RaisedProviderError e1"
    "attempt_body (model request) (post 2) = RaisedProviderError e2" "retryable e2"
    using assms by meson
  then show ?thesis
    by (simp add: acompletion_def Let_def)
qed

text \<open>
  C4 (the code at the failing input): every POST is answered with status 400, which the
  adapter classifies \<open>retryable=False, fallback=True\<close>. The adapter still sends three
  POSTs for the same model and sleeps 1 and 2 seconds between them; the error is raised
  after the third attempt only.
\<close>

theorem acompletion_client_error_failing_input:
  "acompletion (\<lambda>attempt. Response 400 None) example_request =
     \<lparr>outcome = Raises (ProviderErr
        \<lparr>pe_provider = ''openai'', pe_model = ''gpt-4o'', retryable = False, fallback = True,
         message = ''OpenAI client error'', status_code = Some 400\<rparr>),
      posted = [0, 1, 2], slept = [1, 2]\<rparr>"
  by (simp add: acompletion_def attempt_body_def example_request_def Let_def)

end
